theory Spec2Isabelle
  imports Complex_Main
begin

section \<open>GhostTyper: the typing engine of Main.py\<close>

text \<open>
  The development embeds the class \<open>TypingEngine\<close> and the method \<open>TypingWorker.run\<close>
  of \<open>src/Main.py\<close>.

  Conventions of the embedding.
  \<^item> A Python \<open>str\<close> is a \<open>string\<close>; one \<open>char\<close> stands for one code point below 256
    (Latin-1), so \<open>length\<close> is Python's \<open>len\<close>.
  \<^item> Python's \<open>float\<close> arithmetic is idealised to exact arithmetic on \<open>real\<close>: rounding is
    not modelled. Division keeps its one failure, \<open>ZeroDivisionError\<close>.
  \<^item> The module \<open>random\<close> is a stream \<open>nat \<Rightarrow> nat\<close> of raw draws together with a position
    kept in the engine state; every library call maps one raw draw into its range.
  \<^item> The signals and the keyboard controller are recorded in a trace of events.
\<close>

subsection \<open>Characters and strings\<close>

definition NL :: char where
  "NL = CHR 0x0A"

definition SP :: char where
  "SP = CHR '' ''"

text \<open>\<open>str.isspace\<close> on code points below 256.\<close>

definition is_space :: "char \<Rightarrow> bool" where
  "is_space c = (of_char c \<in> {9::nat, 10, 11, 12, 13, 28, 29, 30, 31, 32, 133, 160})"

text \<open>\<open>str.isalpha\<close> on one code point below 256: the ASCII letters and the Latin-1 letters.\<close>

definition is_alpha_char :: "char \<Rightarrow> bool" where
  "is_alpha_char c =
     (let n = (of_char c :: nat) in
        (65 \<le> n \<and> n \<le> 90) \<or> (97 \<le> n \<and> n \<le> 122) \<or> n = 170 \<or> n = 181 \<or> n = 186
        \<or> (192 \<le> n \<and> n \<le> 214) \<or> (216 \<le> n \<and> n \<le> 246) \<or> (248 \<le> n \<and> n \<le> 255))"

text \<open>\<open>word.isalpha()\<close>: false on the empty string.\<close>

definition isalpha :: "string \<Rightarrow> bool" where
  "isalpha w = (w \<noteq> [] \<and> list_all is_alpha_char w)"

text \<open>\<open>char.lower()\<close> on one code point below 256.\<close>

definition lower :: "char \<Rightarrow> char" where
  "lower c =
     (let n = (of_char c :: nat) in
        if (65 \<le> n \<and> n \<le> 90) \<or> (192 \<le> n \<and> n \<le> 214) \<or> (216 \<le> n \<and> n \<le> 222)
        then char_of (n + 32) else c)"

text \<open>\<open>text.split()\<close>: the maximal runs of non-whitespace characters.\<close>

fun split_ws :: "string \<Rightarrow> string \<Rightarrow> string list" where
  "split_ws cur [] = (if cur = [] then [] else [cur])"
| "split_ws cur (c # cs) =
     (if is_space c then (if cur = [] then split_ws [] cs else cur # split_ws [] cs)
      else split_ws (cur @ [c]) cs)"

definition split_whitespace :: "string \<Rightarrow> string list" where
  "split_whitespace t = split_ws [] t"

text \<open>\<open>s.split(sep)\<close> for a one-character separator: empty pieces are kept.\<close>

fun split_on :: "char \<Rightarrow> string \<Rightarrow> string \<Rightarrow> string list" where
  "split_on sep cur [] = [cur]"
| "split_on sep cur (c # cs) =
     (if c = sep then cur # split_on sep [] cs else split_on sep (cur @ [c]) cs)"

definition split_sep :: "char \<Rightarrow> string \<Rightarrow> string list" where
  "split_sep sep t = split_on sep [] t"

text \<open>\<open>text.replace('\n', ' \n ')\<close>.\<close>

definition replace_nl :: "string \<Rightarrow> string" where
  "replace_nl t = concat (map (\<lambda>c. if c = NL then [SP, NL, SP] else [c]) t)"

text \<open>\<open>sep.join(ws)\<close> for the separator \<open>' '\<close>.\<close>

fun join_sp :: "string list \<Rightarrow> string" where
  "join_sp [] = []"
| "join_sp [w] = w"
| "join_sp (w # v # ws) = w @ SP # join_sp (v # ws)"

subsection \<open>Settings and the cadence calculation\<close>

text \<open>The dictionary built by \<open>MainWindow.get_settings\<close>.\<close>

record settings =
  total_minutes :: real
  wpm :: real
  error_rate :: real
  correction_delay :: int
  thinking_chance :: int
  thinking_duration :: "real \<times> real"
  afk_chance :: int
  afk_duration :: "real \<times> real"

datatype exn = ZeroDivisionError

text \<open>The attributes \<open>_calculate_delays\<close> stores on the engine.\<close>

record cadence =
  char_delay :: real
  wpm_jitter :: real
  word_pause :: real
  sentence_pause :: real
  paragraph_pause :: real

definition AVG_CHARS_PER_WORD :: real where
  "AVG_CHARS_PER_WORD = 5"

definition total_duration_sec :: "settings \<Rightarrow> real" where
  "total_duration_sec st = total_minutes st * 60"

text \<open>
  The local \<open>pure_typing_time_sec\<close> after the clamp (lines 161 to 163). The division by
  \<open>base_wpm\<close> raises when it is zero.
\<close>

definition pure_typing_time_sec :: "settings \<Rightarrow> string \<Rightarrow> exn + real" where
  "pure_typing_time_sec st t =
     (if wpm st = 0 then Inl ZeroDivisionError
      else
        let p = (real (length t) / AVG_CHARS_PER_WORD) / wpm st * 60
        in Inr (if p \<ge> total_duration_sec st then total_duration_sec st * 0.95 else p))"

definition count_char :: "char \<Rightarrow> string \<Rightarrow> nat" where
  "count_char c t = length (filter (\<lambda>x. x = c) t)"

definition calculate_delays :: "settings \<Rightarrow> string \<Rightarrow> exn + cadence" where
  "calculate_delays st t =
     (case pure_typing_time_sec st t of
        Inl e \<Rightarrow> Inl e
      | Inr pure \<Rightarrow>
          let total_chars = length t;
              total_pause_time_sec = total_duration_sec st - pure;
              cd = (if total_chars > 0 then pure / real total_chars else 0.05);
              num_words = length (split_whitespace t);
              num_sentences = count_char CHR ''.'' t + count_char CHR ''!'' t + count_char CHR ''?'' t;
              num_nl = count_char NL t
          in Inr \<lparr> char_delay = cd,
                   wpm_jitter = cd * 0.25,
                   word_pause = (if num_words > 0 then (total_pause_time_sec * 0.20) / real num_words else 0),
                   sentence_pause =
                     (if num_sentences > 0 then (total_pause_time_sec * 0.40) / real num_sentences else 0),
                   paragraph_pause =
                     (if num_nl > 0 then (total_pause_time_sec * 0.40) / real num_nl else 0) \<rparr>)"

subsection \<open>The module random\<close>

text \<open>
  The generator is a stream of raw draws; \<open>rnd k\<close> is the \<open>k\<close>-th one. Each function below
  takes the raw draw of one call. \<open>random.random()\<close> returns a multiple of \<open>2^-53\<close> in
  \<open>[0, 1)\<close>; \<open>random.uniform(a, b)\<close> is \<open>a + (b - a) * random()\<close>; \<open>random.randint(a, b)\<close>
  returns an integer of \<open>[a, b]\<close> and \<open>random.choice(seq)\<close> an element of \<open>seq\<close> (every call
  site of the engine has \<open>a \<le> b\<close> and a non-empty \<open>seq\<close>).
\<close>

type_synonym rnd = "nat \<Rightarrow> nat"

definition random_unit :: "nat \<Rightarrow> real" where
  "random_unit r = real (r mod 2 ^ 53) / 2 ^ 53"

definition uniform :: "real \<Rightarrow> real \<Rightarrow> nat \<Rightarrow> real" where
  "uniform a b r = a + (b - a) * random_unit r"

definition randint :: "int \<Rightarrow> int \<Rightarrow> nat \<Rightarrow> int" where
  "randint a b r = a + int (r mod nat (b - a + 1))"

definition choice :: "'a list \<Rightarrow> nat \<Rightarrow> 'a" where
  "choice xs r = xs ! (r mod length xs)"

subsection \<open>Engine state and observable events\<close>

text \<open>An entry of \<open>self.uncorrected_errors\<close>: the dictionary with keys incorrect, correct, pos.\<close>

record pending_error =
  incorrect :: string
  correct :: string
  pos :: int

datatype key = KLeft | KRight | KBackspace

text \<open>
  The messages sent on \<open>signals.status_update\<close> by the engine, one constructor per
  message text, with the value interpolated into it.
\<close>

datatype status =
    Starting_in_5
  | Typing_started
  | Going_back string
  | Fixed
  | Thinking real
  | AFK_break real
  | Finished_successfully
  | Stopped_by_user

text \<open>
  What the engine and the worker do to the outside: \<open>keyboard.type\<close>, \<open>keyboard.press\<close>,
  \<open>keyboard.release\<close>, a call of \<open>_sleep\<close> with its requested duration, and the signals
  \<open>status_update\<close>, \<open>progress\<close>, \<open>error\<close> and \<open>finished\<close>.
\<close>

datatype event =
    KType char
  | KPress key
  | KRelease key
  | Sleep real
  | Status_update status
  | Progress int
  | Error_signal string
  | Finished_signal

text \<open>
  The mutable state of a run: the queue \<open>self.uncorrected_errors\<close>, the local
  \<open>current_pos\<close> of \<open>run\<close>, the position in the random stream and the events so far.
\<close>

record engine =
  uncorrected_errors :: "pending_error list"
  current_pos :: int
  rng :: nat
  trace :: "event list"

definition init_engine :: engine where
  "init_engine = \<lparr> uncorrected_errors = [], current_pos = 0, rng = 0, trace = [] \<rparr>"

definition emit :: "event \<Rightarrow> engine \<Rightarrow> engine" where
  "emit e s = s\<lparr> trace := trace s @ [e] \<rparr>"

definition draw :: "rnd \<Rightarrow> engine \<Rightarrow> nat \<times> engine" where
  "draw rnd s = (rnd (rng s), s\<lparr> rng := Suc (rng s) \<rparr>)"

subsection \<open>Per-character timing: \<open>_type_char\<close>\<close>

definition FAST_KEYS :: "char set" where
  "FAST_KEYS = set ''eatisrondlcum''"

definition SLOW_KEYS :: "char set" where
  "SLOW_KEYS = set ''zjqxkvb''"

text \<open>The argument of \<open>_sleep\<close> on line 217, for the raw draw \<open>r\<close> of \<open>random.uniform\<close>.\<close>

definition char_sleep :: "cadence \<Rightarrow> char \<Rightarrow> nat \<Rightarrow> real" where
  "char_sleep cad c r =
     (let delay = char_delay cad;
          delay = (if c \<in> FAST_KEYS then delay * 0.8
                   else if c \<in> SLOW_KEYS then delay * 1.3 else delay)
      in max 0.02 (delay + uniform (- wpm_jitter cad) (wpm_jitter cad) r))"

definition type_char :: "cadence \<Rightarrow> rnd \<Rightarrow> char \<Rightarrow> engine \<Rightarrow> engine" where
  "type_char cad rnd c s =
     (let s1 = emit (KType c) s;
          (r, s2) = draw rnd s1
      in emit (Sleep (char_sleep cad c r)) s2)"

text \<open>\<open>for char in w: self._type_char(char)\<close>.\<close>

fun type_chars :: "cadence \<Rightarrow> rnd \<Rightarrow> string \<Rightarrow> engine \<Rightarrow> engine" where
  "type_chars cad rnd [] s = s"
| "type_chars cad rnd (c # cs) s = type_chars cad rnd cs (type_char cad rnd c s)"

subsection \<open>Mistake generation: \<open>_get_mistake\<close>\<close>

datatype mistake_type = Adjacency | Transposition | Omission | Insertion

definition adj_map :: "char \<Rightarrow> string option" where
  "adj_map = map_of
     [(CHR ''q'', ''w''), (CHR ''w'', ''es''), (CHR ''e'', ''wr''), (CHR ''r'', ''et''),
      (CHR ''t'', ''ry''), (CHR ''y'', ''tu''), (CHR ''u'', ''yi''), (CHR ''i'', ''uo''),
      (CHR ''o'', ''ip''), (CHR ''p'', ''o[''), (CHR ''a'', ''s''), (CHR ''s'', ''adw''),
      (CHR ''d'', ''efs''), (CHR ''f'', ''dgr''), (CHR ''g'', ''fht''), (CHR ''h'', ''gjy''),
      (CHR ''j'', ''hku''), (CHR ''k'', ''jli''), (CHR ''l'', ''k;o''), (CHR '';'', ''l''),
      (CHR ''z'', ''x''), (CHR ''x'', ''zc''), (CHR ''c'', ''xvd''), (CHR ''v'', ''cfb''),
      (CHR ''b'', ''vgn''), (CHR ''n'', ''bhm''), (CHR ''m'', ''njk'')]"

text \<open>
  The result is the pair the method returns, \<open>None\<close> for Python's \<open>None\<close>, and the engine
  with the random stream advanced by the draws made.
\<close>

definition get_mistake :: "rnd \<Rightarrow> string \<Rightarrow> engine \<Rightarrow> (string \<times> string option) \<times> engine" where
  "get_mistake rnd word s =
     (if length word < 3 \<or> \<not> isalpha word then ((word, None), s)
      else
        let (r1, s1) = draw rnd s;
            mt = choice [Adjacency, Transposition, Omission, Insertion] r1;
            (r2, s2) = draw rnd s1;
            idx = nat (randint 0 (int (length word) - 1) r2)
        in
          if mt = Adjacency \<and> length word > 1 then
            (case adj_map (lower (word ! idx)) of
               Some ns \<Rightarrow>
                 let (r3, s3) = draw rnd s2;
                     new_char = choice ns r3
                 in ((take idx word @ [new_char] @ drop (idx + 1) word, Some word), s3)
             | None \<Rightarrow> ((word, None), s2))
          else if mt = Transposition \<and> length word > 1 then
            (let (r3, s3) = draw rnd s2;
                 idx = nat (randint 0 (int (length word) - 2) r3)
             in ((take idx word @ [word ! (idx + 1)] @ [word ! idx] @ drop (idx + 2) word,
                  Some word), s3))
          else if mt = Omission then
            ((take idx word @ drop (idx + 1) word, Some word), s2)
          else if mt = Insertion then
            (let (r3, s3) = draw rnd s2
             in ((take idx word @ [choice ''aeiou'' r3] @ drop idx word, Some word), s3))
          else ((word, None), s2))"

subsection \<open>The correction maneuver: \<open>_perform_correction\<close>\<close>

text \<open>
  One of the three key loops: \<open>n\<close> times press and release \<open>k\<close>, then \<open>_sleep(d)\<close>.
  \<open>range(m)\<close> of an integer \<open>m\<close> runs \<open>nat m\<close> times, none when \<open>m\<close> is negative.
\<close>

fun press_times :: "key \<Rightarrow> real \<Rightarrow> nat \<Rightarrow> engine \<Rightarrow> engine" where
  "press_times k d 0 s = s"
| "press_times k d (Suc n) s =
     press_times k d n (emit (Sleep d) (emit (KRelease k) (emit (KPress k) s)))"

definition perform_correction ::
  "cadence \<Rightarrow> rnd \<Rightarrow> string \<Rightarrow> string \<Rightarrow> int \<Rightarrow> int \<Rightarrow> engine \<Rightarrow> engine" where
  "perform_correction cad rnd inc cor cur_pos error_pos s =
     (let distance = cur_pos - error_pos;
          s1 = press_times KLeft 0.02 (nat distance) s;
          s2 = press_times KBackspace 0.05 (length inc) s1;
          s3 = type_chars cad rnd cor s2
      in press_times KRight 0.02 (nat (distance - int (length cor))) s3)"

subsection \<open>The main loop: \<open>TypingEngine.run\<close>\<close>

text \<open>
  The flag \<open>self.is_stopped\<close> is written by the control thread only (\<open>stop()\<close> sets it and
  nothing resets it). The request is \<open>Some j\<close> when \<open>stop()\<close> lands after \<open>j\<close> iterations of
  the loop have begun and before the next read of the flag by \<open>run\<close>, and \<open>None\<close> when no
  request lands before the last read. \<open>is_stopped stop k\<close> is the flag as \<open>run\<close> reads it
  once \<open>k\<close> iterations have begun.
\<close>

definition is_stopped :: "nat option \<Rightarrow> nat \<Rightarrow> bool" where
  "is_stopped stop k = (case stop of None \<Rightarrow> False | Some j \<Rightarrow> j \<le> k)"

text \<open>\<open>word.endswith(('.', '!', '?'))\<close>.\<close>

definition ends_sentence :: "string \<Rightarrow> bool" where
  "ends_sentence w = (w \<noteq> [] \<and> last w \<in> {CHR ''.'', CHR ''!'', CHR ''?''})"

text \<open>\<open>int((i / len(words)) * 100)\<close>.\<close>

definition progress_pct :: "nat \<Rightarrow> nat \<Rightarrow> int" where
  "progress_pct i n = \<lfloor>(real i / real n) * 100\<rfloor>"

text \<open>Pre-word action 1, the delayed correction check (lines 248 to 253).\<close>

definition correction_check :: "settings \<Rightarrow> cadence \<Rightarrow> rnd \<Rightarrow> engine \<Rightarrow> engine" where
  "correction_check st cad rnd s =
     (if uncorrected_errors s = [] then s
      else
        let (r, s1) = draw rnd s in
          if randint 1 100 r \<le> correction_delay st then
            (let error_to_fix = hd (uncorrected_errors s1);
                 s2 = s1\<lparr> uncorrected_errors := tl (uncorrected_errors s1) \<rparr>;
                 s3 = emit (Status_update (Going_back (incorrect error_to_fix))) s2;
                 s4 = perform_correction cad rnd (incorrect error_to_fix) (correct error_to_fix)
                        (current_pos s3) (pos error_to_fix) s3
             in emit (Status_update Fixed) s4)
          else s1)"

text \<open>Pre-word action 2, the thinking pause check (lines 256 to 259).\<close>

definition thinking_check :: "settings \<Rightarrow> rnd \<Rightarrow> engine \<Rightarrow> engine" where
  "thinking_check st rnd s =
     (let (r, s1) = draw rnd s in
        if randint 1 100 r \<le> thinking_chance st then
          (let (r', s2) = draw rnd s1;
               duration = uniform (fst (thinking_duration st)) (snd (thinking_duration st)) r'
           in emit (Sleep duration) (emit (Status_update (Thinking duration)) s2))
        else s1)"

text \<open>
  Typing the word (lines 262 to 271). \<open>random.random()\<close> is drawn only when
  \<open>word.isalpha()\<close> holds; \<open>if correct:\<close> is the truth value of a string or \<open>None\<close>.
\<close>

definition type_word :: "settings \<Rightarrow> cadence \<Rightarrow> rnd \<Rightarrow> string \<Rightarrow> engine \<Rightarrow> engine" where
  "type_word st cad rnd word s =
     (if isalpha word then
        (let (r, s1) = draw rnd s in
           if random_unit r < error_rate st / 100 then
             (let ((inc, cor), s2) = get_mistake rnd word s1 in
                case cor of
                  Some c \<Rightarrow>
                    if c \<noteq> [] then
                      type_chars cad rnd inc
                        (s2\<lparr> uncorrected_errors := uncorrected_errors s2 @
                                [\<lparr> incorrect = inc, correct = c, pos = current_pos s2 \<rparr>] \<rparr>)
                    else type_chars cad rnd word s2
                | None \<Rightarrow> type_chars cad rnd word s2)
           else type_chars cad rnd word s1)
      else type_chars cad rnd word s)"

text \<open>The post-word actions (lines 276 to 287) for the token of index \<open>i\<close> out of \<open>n\<close>.\<close>

definition post_word :: "settings \<Rightarrow> cadence \<Rightarrow> rnd \<Rightarrow> nat \<Rightarrow> nat \<Rightarrow> string \<Rightarrow> engine \<Rightarrow> engine" where
  "post_word st cad rnd n i word s =
     (let s1 = emit (Progress (progress_pct i n)) s in
        if word = [NL] then
          (let (r, s2) = draw rnd s1 in
             if randint 1 100 r \<le> afk_chance st then
               (let (r', s3) = draw rnd s2;
                    duration = uniform (fst (afk_duration st)) (snd (afk_duration st)) r'
                in emit (Sleep duration) (emit (Status_update (AFK_break duration)) s3))
             else emit (Sleep (paragraph_pause cad)) s2)
        else if ends_sentence word then emit (Sleep (sentence_pause cad)) s1
        else emit (Sleep (word_pause cad)) (type_char cad rnd SP s1))"

text \<open>One iteration of the loop after its stop check.\<close>

definition process_token :: "settings \<Rightarrow> cadence \<Rightarrow> rnd \<Rightarrow> nat \<Rightarrow> nat \<Rightarrow> string \<Rightarrow> engine \<Rightarrow> engine" where
  "process_token st cad rnd n i word s =
     (let s1 = correction_check st cad rnd s;
          s2 = thinking_check st rnd s1;
          s3 = type_word st cad rnd word s2;
          s4 = s3\<lparr> current_pos := current_pos s3 + int (length word) + 1 \<rparr>
      in post_word st cad rnd n i word s4)"

text \<open>
  \<open>for i, word in enumerate(words)\<close> from index \<open>i\<close> on, with the \<open>break\<close> on the flag.
\<close>

fun run_loop ::
  "settings \<Rightarrow> cadence \<Rightarrow> rnd \<Rightarrow> nat option \<Rightarrow> nat \<Rightarrow> nat \<Rightarrow> string list \<Rightarrow> engine \<Rightarrow> engine" where
  "run_loop st cad rnd stop n i [] s = s"
| "run_loop st cad rnd stop n i (word # ws) s =
     (if is_stopped stop i then s
      else run_loop st cad rnd stop n (Suc i) ws (process_token st cad rnd n i word s))"

text \<open>The token list of line 241.\<close>

definition tokens :: "string \<Rightarrow> string list" where
  "tokens t = split_sep SP (replace_nl t)"

text \<open>
  \<open>TypingEngine.run\<close>: the final state and the exception that left the method, if any.
  The last read of the flag happens once the loop is over, after at most \<open>length words\<close>
  iterations; a flag seen set at a \<open>break\<close> is still set there.
\<close>

definition engine_run :: "settings \<Rightarrow> string \<Rightarrow> rnd \<Rightarrow> nat option \<Rightarrow> engine \<times> exn option" where
  "engine_run st t rnd stop =
     (case calculate_delays st t of
        Inl e \<Rightarrow> (init_engine, Some e)
      | Inr cad \<Rightarrow>
          let s1 = emit (Status_update Starting_in_5) init_engine;
              s2 = emit (Sleep 5) s1;
              s3 = emit (Status_update Typing_started) s2;
              words = tokens t;
              s4 = run_loop st cad rnd stop (length words) 0 words s3
          in if \<not> is_stopped stop (length words)
             then (emit (Progress 100) (emit (Status_update Finished_successfully) s4), None)
             else (emit (Status_update Stopped_by_user) s4, None))"

subsection \<open>The worker: \<open>TypingWorker.run\<close>\<close>

text \<open>\<open>str(e)\<close> of the exception.\<close>

definition str_exn :: "exn \<Rightarrow> string" where
  "str_exn e = (case e of ZeroDivisionError \<Rightarrow> ''float division by zero'')"

text \<open>
  The \<open>try\<close>/\<open>except Exception\<close>/\<open>finally\<close> around \<open>engine.run()\<close>: the events the observer
  receives. The method itself returns normally on every path.
\<close>

definition worker_run :: "settings \<Rightarrow> string \<Rightarrow> rnd \<Rightarrow> nat option \<Rightarrow> event list" where
  "worker_run st t rnd stop =
     (case engine_run st t rnd stop of
        (s, Some e) \<Rightarrow> trace (emit Finished_signal (emit (Error_signal (str_exn e)) s))
      | (s, None) \<Rightarrow> trace (emit Finished_signal s))"

subsection \<open>Concrete inputs\<close>

text \<open>Scenario A of the specification: 60 words per minute over one minute.\<close>

definition settings_A :: settings where
  "settings_A = \<lparr> total_minutes = 1, wpm = 60, error_rate = 0, correction_delay = 0,
     thinking_chance = 0, thinking_duration = (2, 6), afk_chance = 0, afk_duration = (30, 180) \<rparr>"

text \<open>Scenario B: the same with a total duration of five seconds.\<close>

definition settings_B :: settings where
  "settings_B = settings_A\<lparr> total_minutes := 1 / 12 \<rparr>"

text \<open>A total duration of zero.\<close>

definition settings_Z :: settings where
  "settings_Z = settings_A\<lparr> total_minutes := 0 \<rparr>"

text \<open>The word \<open>caf\<close> followed by the Latin-1 letter of code point 233 (e with acute accent).\<close>

definition cafe :: string where
  "cafe = [CHR ''c'', CHR ''a'', CHR ''f'', CHR 0xE9]"

(*DEFS-END*)

section \<open>Properties\<close>

subsection \<open>Cadence calculation\<close>

lemma split_whitespace_hello_world:
  "split_whitespace ''hello world'' = [''hello'', ''world'']"
  by (simp add: split_whitespace_def is_space_def)

text \<open>
  Claim C1, as the code has it. For every settings record with a non-zero \<open>wpm\<close> and every
  text, \<open>pure_typing_time_sec\<close> is \<open>(charCount / 5) / wpm * 60\<close>, replaced by 0.95 times the
  total duration whenever it reaches the total duration; \<open>char_delay\<close> is that value divided
  by the character count, and 0.05 for the empty text. When moreover \<open>wpm\<close>, the character
  count and the total duration are positive, \<open>char_delay\<close> is positive and the pure typing
  time does not exceed the total duration.
\<close>

theorem cadence_algorithm:
  "wpm st \<noteq> 0 \<Longrightarrow>
   (let total = total_minutes st * 60; n = real (length t);
        p0 = (n / 5) / wpm st * 60;
        p = (if p0 \<ge> total then total * 0.95 else p0)
    in pure_typing_time_sec st t = Inr p \<and>
       (\<exists>cad. calculate_delays st t = Inr cad \<and>
          char_delay cad = (if length t = 0 then 0.05 else p / n) \<and>
          (0 < wpm st \<and> 0 < length t \<and> 0 < total \<longrightarrow> 0 < char_delay cad \<and> p \<le> total)))"
  unfolding Let_def calculate_delays_def pure_typing_time_sec_def total_duration_sec_def
    AVG_CHARS_PER_WORD_def
  by (auto simp: field_simps)

theorem cadence_algorithm_witness:
  "wpm settings_A \<noteq> 0 \<and> 0 < wpm settings_A \<and> 0 < length ''hello world'' \<and>
   0 < total_minutes settings_A * 60 \<and>
   pure_typing_time_sec settings_A ''hello world'' = Inr 2.2 \<and>
   (\<exists>cad. calculate_delays settings_A ''hello world'' = Inr cad \<and> char_delay cad = 0.2 \<and>
      0 < char_delay cad)"
  using cadence_algorithm [of settings_A "''hello world''"]
  by (auto simp add: settings_A_def Let_def mult.commute)

text \<open>
  Claim C1 as stated fails without a positive total duration: with a total duration of
  zero, \<open>wpm = 60\<close> and the one-character text \<open>a\<close>, the clamp yields a pure typing time of
  zero and \<open>char_delay\<close> is zero, not positive.
\<close>

theorem cadence_positive_counterexample:
  "0 < wpm settings_Z \<and> 0 < length ''a'' \<and>
   calculate_delays settings_Z ''a'' =
     Inr \<lparr> char_delay = 0, wpm_jitter = 0, word_pause = 0, sentence_pause = 0,
           paragraph_pause = 0 \<rparr>"
  by (simp add: settings_Z_def settings_A_def calculate_delays_def pure_typing_time_sec_def
      total_duration_sec_def AVG_CHARS_PER_WORD_def split_whitespace_def is_space_def
      count_char_def NL_def)

text \<open>
  Claim C7 as stated fails: for Scenario A the pure typing time is
  \<open>(11 / 5) / 60 * 60 = 2.2\<close> seconds, not 11.
\<close>

theorem scenario_A_counterexample:
  "pure_typing_time_sec settings_A ''hello world'' \<noteq> Inr 11"
  by (simp add: settings_A_def pure_typing_time_sec_def total_duration_sec_def
      AVG_CHARS_PER_WORD_def)

text \<open>
  Claim C7, as the code has it. For Scenario A and the text \<open>hello world\<close> the pure typing
  time is 2.2 with no clamping, \<open>char_delay\<close> is 0.2 and \<open>word_pause\<close> is
  \<open>0.20 * (60 - 2.2) / 2 = 5.78\<close>. With a total duration of 5 seconds the pure typing time
  is still 2.2, below 5, so it is not clamped either, and \<open>char_delay\<close> is 0.2.
\<close>

theorem scenario_A_B:
  "pure_typing_time_sec settings_A ''hello world'' = Inr 2.2 \<and>
   calculate_delays settings_A ''hello world'' =
     Inr \<lparr> char_delay = 0.2, wpm_jitter = 0.05, word_pause = 5.78, sentence_pause = 0,
           paragraph_pause = 0 \<rparr> \<and>
   total_duration_sec settings_B = 5 \<and>
   pure_typing_time_sec settings_B ''hello world'' = Inr 2.2 \<and>
   calculate_delays settings_B ''hello world'' =
     Inr \<lparr> char_delay = 0.2, wpm_jitter = 0.05, word_pause = 0.28, sentence_pause = 0,
           paragraph_pause = 0 \<rparr>"
  by (simp add: settings_A_def settings_B_def calculate_delays_def pure_typing_time_sec_def
      total_duration_sec_def AVG_CHARS_PER_WORD_def split_whitespace_hello_world
      count_char_def NL_def)

subsection \<open>Per-character timing\<close>

lemma random_unit_range: "0 \<le> random_unit r \<and> random_unit r < 1"
proof -
  have "r mod 2 ^ 53 < (2 ^ 53 :: nat)" by simp
  then have "real (r mod 2 ^ 53) < 2 ^ 53"
    by (metis of_nat_less_iff of_nat_numeral of_nat_power)
  then show ?thesis by (simp add: random_unit_def)
qed

lemma uniform_jitter_range: "\<bar>uniform (- j) j r\<bar> \<le> \<bar>j\<bar>"
proof -
  have e: "uniform (- j) j r = j * (2 * random_unit r - 1)"
    by (simp add: uniform_def algebra_simps)
  have "\<bar>2 * random_unit r - 1\<bar> \<le> 1"
    using random_unit_range [of r] by (simp add: abs_le_iff)
  then have "\<bar>j\<bar> * \<bar>2 * random_unit r - 1\<bar> \<le> \<bar>j\<bar> * 1"
    by (intro mult_left_mono) simp_all
  then show ?thesis by (simp add: e abs_mult)
qed

text \<open>
  Claim C4. \<open>_type_char\<close> types the character and then sleeps once; for every character
  and every draw the sleep duration is \<open>char_delay\<close>, times 0.8 for a character of
  \<open>eatisrondlcum\<close>, times 1.3 for one of \<open>zjqxkvb\<close>, unscaled otherwise, plus the offset
  drawn by \<open>random.uniform(-jitter, jitter)\<close>, floored at 0.02. The offset lies between
  minus the jitter magnitude and the jitter magnitude, and the duration is never below 0.02.
\<close>

theorem type_char_sleep:
  "trace (type_char cad rnd c s) = trace s @ [KType c, Sleep (char_sleep cad c (rnd (rng s)))] \<and>
   char_sleep cad c r =
     max 0.02 ((if c \<in> set ''eatisrondlcum'' then char_delay cad * 0.8
                else if c \<in> set ''zjqxkvb'' then char_delay cad * 1.3
                else char_delay cad)
               + uniform (- wpm_jitter cad) (wpm_jitter cad) r) \<and>
   \<bar>uniform (- wpm_jitter cad) (wpm_jitter cad) r\<bar> \<le> \<bar>wpm_jitter cad\<bar> \<and>
   0.02 \<le> char_sleep cad c r"
proof -
  have "trace (type_char cad rnd c s) = trace s @ [KType c, Sleep (char_sleep cad c (rnd (rng s)))]"
    by (simp add: type_char_def emit_def draw_def)
  moreover have "char_sleep cad c r =
     max 0.02 ((if c \<in> set ''eatisrondlcum'' then char_delay cad * 0.8
                else if c \<in> set ''zjqxkvb'' then char_delay cad * 1.3
                else char_delay cad)
               + uniform (- wpm_jitter cad) (wpm_jitter cad) r)"
    unfolding char_sleep_def FAST_KEYS_def SLOW_KEYS_def Let_def by simp
  moreover have "0.02 \<le> char_sleep cad c r"
    unfolding char_sleep_def Let_def by simp
  ultimately show ?thesis using uniform_jitter_range by blast
qed

subsection \<open>Mistake generation\<close>

text \<open>
  Claim C5. On a token shorter than 3 characters or not purely alphabetic,
  \<open>_get_mistake\<close> returns the token with \<open>None\<close> and draws nothing. When the kind drawn is
  adjacency and the lower-cased character at the drawn index has no entry in the neighbour
  map, it returns the token with \<open>None\<close> as well.
\<close>

theorem get_mistake_unchanged:
  "(length word < 3 \<or> \<not> isalpha word \<longrightarrow> get_mistake rnd word s = ((word, None), s)) \<and>
   (choice [Adjacency, Transposition, Omission, Insertion] (rnd (rng s)) = Adjacency \<and>
    adj_map (lower (word ! nat (randint 0 (int (length word) - 1) (rnd (Suc (rng s)))))) = None
      \<longrightarrow> fst (get_mistake rnd word s) = (word, None))"
  by (simp add: get_mistake_def draw_def Let_def)

theorem get_mistake_unchanged_witness:
  "length ''ab'' < 3 \<and> get_mistake (\<lambda>k. 0) ''ab'' init_engine = ((''ab'', None), init_engine) \<and>
   \<not> isalpha ''ab1'' \<and> get_mistake (\<lambda>k. 0) ''ab1'' init_engine = ((''ab1'', None), init_engine) \<and>
   \<not> length cafe < 3 \<and> isalpha cafe \<and>
   choice [Adjacency, Transposition, Omission, Insertion]
     ((\<lambda>k. if k = 0 then 0 else 3) (rng init_engine)) = Adjacency \<and>
   adj_map (lower (cafe ! nat (randint 0 (int (length cafe) - 1)
     ((\<lambda>k. if k = 0 then 0 else 3) (Suc (rng init_engine)))))) = None \<and>
   fst (get_mistake (\<lambda>k. if k = 0 then 0 else 3) cafe init_engine) = (cafe, None)"
  using get_mistake_unchanged [of "''ab''" "\<lambda>k. 0" init_engine]
    get_mistake_unchanged [of "''ab1''" "\<lambda>k. 0" init_engine]
    get_mistake_unchanged [of cafe "\<lambda>k. if k = 0 then 0 else 3" init_engine]
  by (simp add: cafe_def isalpha_def is_alpha_char_def choice_def randint_def init_engine_def
      lower_def adj_map_def)

subsection \<open>The token list\<close>

lemma split_on_nonempty: "split_on sep cur t \<noteq> []"
  by (induction t arbitrary: cur) auto

lemma join_sp_Cons: "ws \<noteq> [] \<Longrightarrow> join_sp (w # ws) = w @ SP # join_sp ws"
  by (cases ws) auto

lemma join_split_on: "join_sp (split_on SP cur t) = cur @ t"
  by (induction t arbitrary: cur) (auto simp: join_sp_Cons split_on_nonempty)

lemma split_on_all_no_sep:
  "sep \<notin> set cur \<Longrightarrow> \<forall>w \<in> set (split_on sep cur t). sep \<notin> set w"
proof (induction t arbitrary: cur)
  case Nil
  then show ?case by simp
next
  case (Cons c cs)
  show ?case
  proof (cases "c = sep")
    case True
    have "\<forall>w \<in> set (split_on sep [] cs). sep \<notin> set w"
      using Cons.IH [of "[]"] by simp
    with True Cons.prems show ?thesis by simp
  next
    case False
    with Cons.prems have "sep \<notin> set (cur @ [c])" by simp
    from Cons.IH [OF this] False show ?thesis by simp
  qed
qed

lemma split_on_no_sep:
  "sep \<notin> set cur \<Longrightarrow> w \<in> set (split_on sep cur t) \<Longrightarrow> sep \<notin> set w"
  using split_on_all_no_sep by blast

lemma replace_nl_Cons:
  "replace_nl (c # cs) = (if c = NL then [SP, NL, SP] else [c]) @ replace_nl cs"
  by (simp add: replace_nl_def)

lemma replace_nl_Nil: "replace_nl [] = []"
  by (simp add: replace_nl_def)

lemma NL_neq_SP: "NL \<noteq> SP"
  by (simp add: NL_def SP_def)

lemma split_on_replace_nl:
  "NL \<notin> set cur \<Longrightarrow> w \<in> set (split_on SP cur (replace_nl t)) \<Longrightarrow> NL \<in> set w \<Longrightarrow> w = [NL]"
proof (induction t arbitrary: cur)
  case Nil
  then show ?case by (simp add: replace_nl_Nil)
next
  case (Cons c cs)
  show ?case
  proof (cases "c = NL")
    case True
    with Cons.prems have "w = cur \<or> w = [NL] \<or> w \<in> set (split_on SP [] (replace_nl cs))"
      using NL_neq_SP by (auto simp: replace_nl_Cons)
    with Cons.prems Cons.IH [of "[]"] show ?thesis by auto
  next
    case False
    show ?thesis
    proof (cases "c = SP")
      case True
      with Cons.prems False have "w = cur \<or> w \<in> set (split_on SP [] (replace_nl cs))"
        by (auto simp: replace_nl_Cons)
      with Cons.prems Cons.IH [of "[]"] show ?thesis by auto
    next
      case nsp: False
      with Cons.prems False have "w \<in> set (split_on SP (cur @ [c]) (replace_nl cs))"
        by (auto simp: replace_nl_Cons)
      with Cons.prems False Cons.IH [of "cur @ [c]"] show ?thesis by auto
    qed
  qed
qed

lemma split_on_append_no_sep:
  "sep \<notin> set w \<Longrightarrow> split_on sep cur (w @ t) = split_on sep (cur @ w) t"
  by (induction w arbitrary: cur) auto

lemma split_on_join_sp:
  "ws \<noteq> [] \<Longrightarrow> \<forall>w \<in> set ws. SP \<notin> set w \<Longrightarrow>
   split_on SP cur (join_sp ws) = (cur @ hd ws) # tl ws"
proof (induction ws arbitrary: cur)
  case Nil
  then show ?case by simp
next
  case (Cons w ws)
  show ?case
  proof (cases ws)
    case Nil
    with Cons.prems show ?thesis
      using split_on_append_no_sep [of SP w cur "[]"] by simp
  next
    case (Cons v vs)
    have "split_on SP cur (join_sp (w # ws)) = split_on SP (cur @ w) (SP # join_sp ws)"
      using Cons.prems Cons split_on_append_no_sep [of SP w cur] by simp
    also have "\<dots> = (cur @ w) # split_on SP [] (join_sp ws)" by simp
    also have "split_on SP [] (join_sp ws) = hd ws # tl ws"
      using Cons.IH [of "[]"] Cons.prems Cons by simp
    finally show ?thesis using Cons by simp
  qed
qed

text \<open>
  Claim C8, as the code has it. The loop iterates over \<open>tokens t\<close>: the text with every
  newline replaced by space, newline, space, cut at every single space character. The list
  is never empty; joining it with single spaces gives back the replaced text; no token
  contains a space; a token that contains a newline is the newline alone; and it is the
  only non-empty list of space-free strings that joins to the replaced text. Empty tokens
  are kept, and whitespace other than space and newline stays inside a token.
\<close>

theorem tokens_spec:
  "tokens t \<noteq> [] \<and>
   join_sp (tokens t) = replace_nl t \<and>
   (\<forall>w \<in> set (tokens t). SP \<notin> set w \<and> (NL \<in> set w \<longrightarrow> w = [NL])) \<and>
   (\<forall>ws. ws \<noteq> [] \<and> (\<forall>w \<in> set ws. SP \<notin> set w) \<and> join_sp ws = replace_nl t \<longrightarrow> ws = tokens t)"
proof -
  have a: "tokens t \<noteq> []"
    by (simp add: tokens_def split_sep_def split_on_nonempty)
  have b: "join_sp (tokens t) = replace_nl t"
    by (simp add: tokens_def split_sep_def join_split_on)
  have c: "\<forall>w \<in> set (tokens t). SP \<notin> set w \<and> (NL \<in> set w \<longrightarrow> w = [NL])"
    unfolding tokens_def split_sep_def
    using split_on_no_sep [of SP "[]" _ "replace_nl t"] split_on_replace_nl [of "[]" _ t]
    by auto
  have d: "ws = tokens t"
    if "ws \<noteq> []" "\<forall>w \<in> set ws. SP \<notin> set w" "join_sp ws = replace_nl t" for ws
  proof -
    have "split_on SP [] (join_sp ws) = hd ws # tl ws"
      using split_on_join_sp [of ws "[]"] that by simp
    with that show ?thesis by (simp add: tokens_def split_sep_def)
  qed
  from a b c d show ?thesis by blast
qed

theorem tokens_spec_witness:
  "[NL] \<in> set (tokens [CHR ''a'', NL, CHR ''b'']) \<and> SP \<notin> set [NL] \<and> NL \<in> set [NL] \<and>
   tokens [CHR ''a'', NL, CHR ''b''] = [''a'', [NL], ''b''] \<and>
   join_sp [''a'', [NL], ''b''] = replace_nl [CHR ''a'', NL, CHR ''b'']"
  using tokens_spec [of "[CHR ''a'', NL, CHR ''b'']"]
  by (simp add: tokens_def split_sep_def replace_nl_def NL_def SP_def)

text \<open>
  Claim C8 as stated fails: two consecutive spaces produce an empty token, and a tab,
  which is whitespace, stays inside a token.
\<close>

theorem tokens_counterexample:
  "tokens [CHR ''a'', SP, SP, CHR ''b'', CHR 0x09, CHR ''c''] =
     [''a'', [], [CHR ''b'', CHR 0x09, CHR ''c'']] \<and>
   is_space (CHR 0x09)"
  by (simp add: tokens_def split_sep_def replace_nl_def NL_def SP_def is_space_def)

end
